theory Spec2Isabelle
  imports Main
begin

section \<open>Command-line flags of \<^verbatim>\<open>main.go\<close>\<close>

text \<open>
  The flag variables of \<^verbatim>\<open>main.go\<close> with the defaults written there. The command
  line is modelled after a successful \<^verbatim>\<open>flag.Parse()\<close>: a list of typed settings,
  applied left to right, so that a flag given twice keeps its last value. A flag that is
  not on the command line keeps its default.
\<close>

definition gdnsEndpoint :: string where
  "gdnsEndpoint = ''https://dns.google/dns-query''"

type_synonym KeyValue = "(string \<times> string list) list"

type_synonym ip = string

record flags =
  listenAddressFlag :: string
  logLevelFlag :: string
  googleFlag :: bool
  endpointFlag :: string
  endpointIPsFlag :: string
  ednsSubnetFlag :: string
  cacheFlag :: bool
  enableTCPFlag :: bool
  enableUDPFlag :: bool
  headersFlag :: KeyValue
  queryParameters :: KeyValue
  http2Flag :: bool
  cacertFlag :: string
  noAAAAFlag :: bool
  dnsResolverFlag :: string

definition default_flags :: flags where
  "default_flags = \<lparr>
     listenAddressFlag = '':53'',
     logLevelFlag = ''info'',
     googleFlag = False,
     endpointFlag = gdnsEndpoint,
     endpointIPsFlag = [],
     ednsSubnetFlag = ''auto'',
     cacheFlag = True,
     enableTCPFlag = True,
     enableUDPFlag = True,
     headersFlag = [],
     queryParameters = [],
     http2Flag = False,
     cacertFlag = [],
     noAAAAFlag = False,
     dnsResolverFlag = [] \<rparr>"

datatype flag_setting =
    Arg_listen string
  | Arg_loglevel string
  | Arg_google bool
  | Arg_endpoint string
  | Arg_endpoint_ips string
  | Arg_edns_subnet string
  | Arg_cache bool
  | Arg_tcp bool
  | Arg_udp bool
  | Arg_headers string string
  | Arg_param string string
  | Arg_http2 bool
  | Arg_cacert string
  | Arg_no_ipv6 bool
  | Arg_dns_resolver string

text \<open>
  The repeatable flags \<^verbatim>\<open>-headers\<close> and \<^verbatim>\<open>-param\<close> collect the values given for a key,
  as their help texts say (\<^verbatim>\<open>-param key1=value1-1 -param key1=value1-2\<close>).
\<close>

fun kv_add :: "string \<Rightarrow> string \<Rightarrow> KeyValue \<Rightarrow> KeyValue" where
  "kv_add k v [] = [(k, [v])]"
| "kv_add k v ((k', vs) # kvs) =
     (if k = k' then (k', vs @ [v]) # kvs else (k', vs) # kv_add k v kvs)"

fun apply_setting :: "flags \<Rightarrow> flag_setting \<Rightarrow> flags" where
  "apply_setting f (Arg_listen v) = f\<lparr>listenAddressFlag := v\<rparr>"
| "apply_setting f (Arg_loglevel v) = f\<lparr>logLevelFlag := v\<rparr>"
| "apply_setting f (Arg_google b) = f\<lparr>googleFlag := b\<rparr>"
| "apply_setting f (Arg_endpoint v) = f\<lparr>endpointFlag := v\<rparr>"
| "apply_setting f (Arg_endpoint_ips v) = f\<lparr>endpointIPsFlag := v\<rparr>"
| "apply_setting f (Arg_edns_subnet v) = f\<lparr>ednsSubnetFlag := v\<rparr>"
| "apply_setting f (Arg_cache b) = f\<lparr>cacheFlag := b\<rparr>"
| "apply_setting f (Arg_tcp b) = f\<lparr>enableTCPFlag := b\<rparr>"
| "apply_setting f (Arg_udp b) = f\<lparr>enableUDPFlag := b\<rparr>"
| "apply_setting f (Arg_headers k v) = f\<lparr>headersFlag := kv_add k v (headersFlag f)\<rparr>"
| "apply_setting f (Arg_param k v) = f\<lparr>queryParameters := kv_add k v (queryParameters f)\<rparr>"
| "apply_setting f (Arg_http2 b) = f\<lparr>http2Flag := b\<rparr>"
| "apply_setting f (Arg_cacert v) = f\<lparr>cacertFlag := v\<rparr>"
| "apply_setting f (Arg_no_ipv6 b) = f\<lparr>noAAAAFlag := b\<rparr>"
| "apply_setting f (Arg_dns_resolver v) = f\<lparr>dnsResolverFlag := v\<rparr>"

definition flag_Parse :: "flag_setting list \<Rightarrow> flags" where
  "flag_Parse args = foldl apply_setting default_flags args"

fun sets_endpoint :: "flag_setting \<Rightarrow> bool" where
  "sets_endpoint (Arg_endpoint v) = True"
| "sets_endpoint _ = False"

section \<open>Startup: \<^verbatim>\<open>main\<close> up to the listener loop\<close>

text \<open>
  \<^verbatim>\<open>logrus\<close> levels, and what the process emits: a call of the logger at a level, or
  the \<^verbatim>\<open>fmt.Println\<close> of the log level. A call at \<open>FatalLevel\<close> is \<^verbatim>\<open>log.Fatalf\<close> or
  \<^verbatim>\<open>log.Fatal\<close>, which logs and then exits the process with status 1; in the model the
  exit is the \<open>Exited\<close> branch that follows every such call.
\<close>

datatype Level =
  PanicLevel | FatalLevel | ErrorLevel | WarnLevel | InfoLevel | DebugLevel | TraceLevel

datatype emitted = Log Level string | Println_log_level Level

record DMProviderOptions =
  EndpointIPs :: "ip list"
  EDNSSubnet :: string
  QueryParameters :: KeyValue
  Headers :: KeyValue
  HTTP2 :: bool
  CACertFilePath :: string
  NoAAAA :: bool
  Alternative :: bool
  DnsResolver :: string

record HandlerOptions =
  Cache :: bool

text \<open>
  \<^verbatim>\<open>logrus.ParseLevel\<close> is a library function; \<^verbatim>\<open>CSVtoIPs\<close> and the validation done by
  \<^verbatim>\<open>NewDMProvider\<close> live in files of the repository other than \<^verbatim>\<open>main.go\<close>. \<^verbatim>\<open>main\<close>
  only looks at the error each of them returns, so they are parameters of the model,
  each returning Go's pair of a value and an optional error.
\<close>

record env =
  ParseLevel :: "string \<Rightarrow> Level \<times> string option"
  CSVtoIPs :: "string \<Rightarrow> ip list \<times> string option"
  NewDMProvider_error :: "string \<Rightarrow> DMProviderOptions \<Rightarrow> string option"

text \<open>
  Modelled from the spec: the provider object that the missing \<^verbatim>\<open>NewDMProvider\<close> returns.
  It is the spec's Endpoint Configuration, the endpoint URL with the options, immutable
  once constructed.
\<close>

record DMProvider =
  p_endpoint :: string
  p_options :: DMProviderOptions

text \<open>
  Modelled from the spec: the missing constructor \<^verbatim>\<open>NewDMProvider\<close>. It returns the
  configuration built from its two arguments, with the error of its validation, which
  is the parameter above.
\<close>

definition NewDMProvider :: "env \<Rightarrow> string \<Rightarrow> DMProviderOptions \<Rightarrow> DMProvider \<times> string option" where
  "NewDMProvider e ep opts = (\<lparr>p_endpoint = ep, p_options = opts\<rparr>, NewDMProvider_error e ep opts)"

text \<open>
  Modelled from the spec: the handler object that the missing \<^verbatim>\<open>NewHandler\<close> returns, the
  provider bound to the handler options.
\<close>

record Handler =
  h_provider :: DMProvider
  h_options :: HandlerOptions

text \<open>Modelled from the spec: the missing constructor \<^verbatim>\<open>NewHandler\<close>.\<close>

definition NewHandler :: "DMProvider \<Rightarrow> HandlerOptions \<Rightarrow> Handler" where
  "NewHandler p opts = \<lparr>h_provider = p, h_options = opts\<rparr>"

record app =
  app_handler :: Handler
  app_protocols :: "string list"
  app_listen :: string
  app_level :: Level

text \<open>
  The four places where \<^verbatim>\<open>main\<close> calls \<^verbatim>\<open>log.Fatalf\<close> or \<^verbatim>\<open>log.Fatal\<close>, in source order
  (lines 149, 173, 176 and 194). Startup either exits at one of them, with the exit
  status, or reaches the listener loop.
\<close>

datatype fatal_site =
  Fatal_log_level | Fatal_endpoint_ips | Fatal_dns_servers | Fatal_provider

datatype startup = Exited fatal_site nat "emitted list" | Ready app "emitted list"

definition provider_options :: "flags \<Rightarrow> ip list \<Rightarrow> DMProviderOptions" where
  "provider_options f endpointIps =
     \<lparr> EndpointIPs = endpointIps,
       EDNSSubnet = ednsSubnetFlag f,
       QueryParameters = queryParameters f,
       Headers = headersFlag f,
       HTTP2 = http2Flag f,
       CACertFilePath = cacertFlag f,
       NoAAAA = noAAAAFlag f,
       Alternative = googleFlag f,
       DnsResolver = dnsResolverFlag f \<rparr>"

definition enabled_protocols :: "flags \<Rightarrow> string list" where
  "enabled_protocols f =
     (if enableTCPFlag f then [''tcp''] else []) @ (if enableUDPFlag f then [''udp''] else [])"

definition main_startup :: "env \<Rightarrow> flag_setting list \<Rightarrow> startup" where
  "main_startup e args =
     (let f = flag_Parse args in
      case ParseLevel e (logLevelFlag f) of (level, err) \<Rightarrow>
      (case err of
         Some msg \<Rightarrow> Exited Fatal_log_level 1 [Log FatalLevel (''invalid log level: '' @ msg)]
       | None \<Rightarrow>
         (let printed = [Println_log_level level] in
          case CSVtoIPs e (endpointIPsFlag f) of (endpointIps, err) \<Rightarrow>
          (case err of
             Some msg \<Rightarrow>
               Exited Fatal_endpoint_ips 1
                 (printed @ [Log FatalLevel (''error parsing endpoint-ips: '' @ msg)])
           | None \<Rightarrow>
             (case err of
                Some msg \<Rightarrow>
                  Exited Fatal_dns_servers 1
                    (printed @ [Log FatalLevel (''error parsing dns-servers: '' @ msg)])
              | None \<Rightarrow>
                (let ep = endpointFlag f;
                     opts = provider_options f endpointIps
                 in case NewDMProvider e ep opts of (prov, err) \<Rightarrow>
                    (case err of
                       Some msg \<Rightarrow> Exited Fatal_provider 1 (printed @ [Log FatalLevel msg])
                     | None \<Rightarrow>
                       (let hopts = \<lparr>Cache = cacheFlag f\<rparr>;
                            handler = NewHandler prov hopts
                        in Ready \<lparr> app_handler = handler,
                                   app_protocols = enabled_protocols f,
                                   app_listen = listenAddressFlag f,
                                   app_level = level \<rparr> printed))))))))"

section \<open>The listener tasks: \<^verbatim>\<open>serve\<close> and the loop that starts them\<close>

text \<open>
  After startup the program is concurrent: \<^verbatim>\<open>main\<close> and one goroutine per \<^verbatim>\<open>go serve\<close>.
  The model is an interleaving of atomic steps on a process state. Program points of
  \<^verbatim>\<open>main\<close>: in the startup section (only when startup exited), at the head of the
  \<^verbatim>\<open>for\<close> loop with the protocols still to start, blocked in the send \<^verbatim>\<open>servers <- p\<close>,
  blocked in \<^verbatim>\<open><-sig\<close>, returned. Program points of a \<^verbatim>\<open>serve\<close> goroutine: blocked in
  the receive \<^verbatim>\<open><-net\<close>, holding its \<^verbatim>\<open>listenNet\<close> before the first log line, inside
  \<^verbatim>\<open>server.ListenAndServe()\<close>, before \<^verbatim>\<open>server.Shutdown()\<close>, returned.
\<close>

datatype main_pc =
    M_config
  | M_loop "string list"
  | M_send string "string list"
  | M_wait
  | M_returned

datatype task_pc =
    T_recv
  | T_start string
  | T_listen string
  | T_shutdown string
  | T_done string

datatype exit_status = ExitCode nat | Killed_by_signal

record proc =
  pc_main :: main_pc
  tasks :: "task_pc list"
  exited :: "exit_status option"
  out :: "emitted list"
  shutdowns :: "string list"
  listen :: string

text \<open>
  The events a scheduler and the environment choose from: \<^verbatim>\<open>main\<close> runs to its next
  blocking point; goroutine \<open>i\<close> receives what \<^verbatim>\<open>main\<close> is sending on the unbuffered
  channel (the rendezvous moves both); goroutine \<open>i\<close> takes its next step;
  \<^verbatim>\<open>ListenAndServe\<close> of goroutine \<open>i\<close> returns, with an error or with \<^verbatim>\<open>nil\<close>;
  \<^verbatim>\<open>Shutdown\<close> is called by goroutine \<open>i\<close> and returns; SIGINT or SIGTERM arrives.
  An event that is not enabled leaves the state as it is, and nothing moves once the
  process has exited.

  What the steps take from Go and the libraries: \<^verbatim>\<open>log.Fatalf\<close> exits the process with
  status 1; the process ends when \<^verbatim>\<open>main\<close> returns, whatever the other goroutines are
  doing; a signal that arrives before \<^verbatim>\<open>signal.Notify\<close> has its default effect and kills
  the process, and one that arrives while \<^verbatim>\<open>main\<close> waits in \<^verbatim>\<open><-sig\<close> wakes it.
  \<^verbatim>\<open>ListenAndServe\<close> blocks while the listener serves. The program holds no reference to
  a server outside its own goroutine, so nothing in it makes \<^verbatim>\<open>ListenAndServe\<close> return
  \<^verbatim>\<open>nil\<close>; the event is part of the model all the same, so that the code after it is.
\<close>

datatype event =
    MainStep
  | Handoff nat
  | TaskStep nat
  | ListenReturns nat "string option"
  | ShutdownReturns nat "string option"
  | Signal

definition main_step :: "proc \<Rightarrow> proc" where
  "main_step s =
     (case pc_main s of
        M_loop [] \<Rightarrow> s\<lparr>pc_main := M_wait\<rparr>
      | M_loop (p # ps) \<Rightarrow> s\<lparr>pc_main := M_send p ps, tasks := tasks s @ [T_recv]\<rparr>
      | _ \<Rightarrow> s)"

definition handoff :: "nat \<Rightarrow> proc \<Rightarrow> proc" where
  "handoff i s =
     (case pc_main s of
        M_send p ps \<Rightarrow>
          (if i < length (tasks s) \<and> tasks s ! i = T_recv
           then s\<lparr>pc_main := M_loop ps, tasks := (tasks s)[i := T_start p]\<rparr>
           else s)
      | _ \<Rightarrow> s)"

definition task_step :: "nat \<Rightarrow> proc \<Rightarrow> proc" where
  "task_step i s =
     (if i < length (tasks s) then
        (case tasks s ! i of
           T_start p \<Rightarrow>
             s\<lparr>tasks := (tasks s)[i := T_listen p],
               out := out s @ [Log InfoLevel (''starting '' @ p @ '' service on '' @ listen s)]\<rparr>
         | _ \<Rightarrow> s)
      else s)"

definition listen_returns :: "nat \<Rightarrow> string option \<Rightarrow> proc \<Rightarrow> proc" where
  "listen_returns i err s =
     (if i < length (tasks s) then
        (case tasks s ! i of
           T_listen p \<Rightarrow>
             (case err of
                Some msg \<Rightarrow>
                  s\<lparr>out := out s @
                       [Log FatalLevel (''Failed to setup the '' @ p @ '' server: '' @ msg @ [CHR 0x0A])],
                    exited := Some (ExitCode 1)\<rparr>
              | None \<Rightarrow>
                  s\<lparr>tasks := (tasks s)[i := T_shutdown p],
                    out := out s @
                       [Log InfoLevel (''shutting down '' @ p @ '' on interrupt'' @ [CHR 0x0A])]\<rparr>)
         | _ \<Rightarrow> s)
      else s)"

definition shutdown_returns :: "nat \<Rightarrow> string option \<Rightarrow> proc \<Rightarrow> proc" where
  "shutdown_returns i err s =
     (if i < length (tasks s) then
        (case tasks s ! i of
           T_shutdown p \<Rightarrow>
             s\<lparr>tasks := (tasks s)[i := T_done p],
               shutdowns := shutdowns s @ [p],
               out := out s @
                 (case err of
                    Some msg \<Rightarrow> [Log ErrorLevel (''got unexpected error '' @ msg)]
                  | None \<Rightarrow> [])\<rparr>
         | _ \<Rightarrow> s)
      else s)"

definition signal :: "proc \<Rightarrow> proc" where
  "signal s =
     (case pc_main s of
        M_wait \<Rightarrow>
          s\<lparr>pc_main := M_returned,
            out := out s @ [Log InfoLevel ''servers exited, stopping''],
            exited := Some (ExitCode 0)\<rparr>
      | _ \<Rightarrow> s\<lparr>exited := Some Killed_by_signal\<rparr>)"

fun step :: "proc \<Rightarrow> event \<Rightarrow> proc" where
  "step s e =
     (if exited s \<noteq> None then s
      else case e of
        MainStep \<Rightarrow> main_step s
      | Handoff i \<Rightarrow> handoff i s
      | TaskStep i \<Rightarrow> task_step i s
      | ListenReturns i err \<Rightarrow> listen_returns i err s
      | ShutdownReturns i err \<Rightarrow> shutdown_returns i err s
      | Signal \<Rightarrow> signal s)"

definition run :: "proc \<Rightarrow> event list \<Rightarrow> proc" where
  "run s es = foldl step s es"

definition boot :: "env \<Rightarrow> flag_setting list \<Rightarrow> proc" where
  "boot e args =
     (case main_startup e args of
        Exited site c msgs \<Rightarrow>
          \<lparr>pc_main = M_config, tasks = [], exited = Some (ExitCode c), out = msgs,
           shutdowns = [], listen = listenAddressFlag (flag_Parse args)\<rparr>
      | Ready a msgs \<Rightarrow>
          \<lparr>pc_main = M_loop (app_protocols a), tasks = [], exited = None, out = msgs,
           shutdowns = [], listen = app_listen a\<rparr>)"

definition serving :: "proc \<Rightarrow> string \<Rightarrow> bool" where
  "serving s p \<longleftrightarrow> exited s = None \<and> T_listen p \<in> set (tasks s)"


definition config_error :: "env \<Rightarrow> flag_setting list \<Rightarrow> bool" where
  "config_error e args =
     (let f = flag_Parse args in
      snd (ParseLevel e (logLevelFlag f)) \<noteq> None
      \<or> snd (CSVtoIPs e (endpointIPsFlag f)) \<noteq> None
      \<or> NewDMProvider_error e (endpointFlag f)
           (provider_options f (fst (CSVtoIPs e (endpointIPsFlag f)))) \<noteq> None)"

text \<open>
  An environment in which every startup check passes, and one in which the log level
  is rejected; they are the concrete inputs of the examples below.
\<close>

definition accepting_env :: env where
  "accepting_env =
     \<lparr>ParseLevel = (\<lambda>s. (InfoLevel, None)),
      CSVtoIPs = (\<lambda>s. ([], None)),
      NewDMProvider_error = (\<lambda>ep opts. None)\<rparr>"

definition rejecting_env :: env where
  "rejecting_env =
     \<lparr>ParseLevel = (\<lambda>s. (PanicLevel, Some (''not a valid logrus Level: '' @ s))),
      CSVtoIPs = (\<lambda>s. ([], None)),
      NewDMProvider_error = (\<lambda>ep opts. None)\<rparr>"

subsection \<open>The design the spec asks for: one task per transport, no channel\<close>







text \<open>A schedule that starts both listeners and brings \<^verbatim>\<open>main\<close> to its wait for a signal.\<close>

definition start_both :: "event list" where
  "start_both = [MainStep, Handoff 0, TaskStep 0, MainStep, Handoff 1, TaskStep 1, MainStep]"




section \<open>The query engine behind \<^verbatim>\<open>handler.Handle\<close>\<close>

text \<open>
  \<^verbatim>\<open>main.go\<close> builds the provider and the handler and registers \<^verbatim>\<open>handler.Handle\<close>; the
  files that define them are not among the sources. The definitions of this section
  follow the spec's component design instead (sections 3 and 4 of the spec), one
  query at a time: each call runs to completion before the next begins, so the
  in-flight marker of the cache, set and cleared inside one call, is not part of the
  state between calls.
\<close>

text \<open>
  Modelled from the spec: the record types A and AAAA and the status codes of success
  and SERVFAIL, with the numbers the DNS protocol gives them.
\<close>

definition TypeA :: nat where "TypeA = 1"
definition TypeAAAA :: nat where "TypeAAAA = 28"
definition RcodeSuccess :: nat where "RcodeSuccess = 0"
definition RcodeServerFailure :: nat where "RcodeServerFailure = 2"

text \<open>
  Modelled from the spec: a question of a DNS message (the message type belongs to the
  external DNS library): name, type, class.
\<close>

record question =
  qname :: string
  qtype :: nat
  qclass :: nat

text \<open>Modelled from the spec: an answer resource record, with its TTL.\<close>

record rr =
  rr_name :: string
  rr_type :: nat
  rr_class :: nat
  rr_ttl :: nat
  rr_data :: string

text \<open>
  Modelled from the spec: the DNS message, reduced to what the spec speaks of:
  transaction ID, response flag, status, questions, answer records.
\<close>

record dns_msg =
  msg_id :: nat
  response :: bool
  rcode :: nat
  questions :: "question list"
  answers :: "rr list"

text \<open>Modelled from the spec: its per-request error taxonomy (section 7).\<close>

datatype engine_error =
    UnsupportedQueryError
  | EndpointResolutionError
  | UpstreamHTTPError nat
  | UpstreamDecodeError

text \<open>
  Modelled from the spec: the Query Fingerprint of the missing cache: case-folded
  question name, question type, question class, the client subnet sent.
\<close>

type_synonym fingerprint = "string \<times> nat \<times> nat \<times> string option"

text \<open>
  Modelled from the spec: the Cache Entry of the missing cache: fingerprint, answer,
  insertion timestamp, effective TTL.
\<close>

record cache_entry =
  ce_fingerprint :: fingerprint
  ce_answer :: dns_msg
  ce_inserted :: nat
  ce_ttl :: nat

text \<open>
  Modelled from the spec: the mutable state shared by the requests, which is the cache
  map, with two counters beside it: endpoint resolutions attempted and upstream HTTPS
  calls made (the call counter of the spec's stubbed transport).
\<close>

record engine =
  cache :: "fingerprint \<rightharpoonup> cache_entry"
  picks :: nat
  calls :: nat

text \<open>
  Modelled from the spec: the world outside the engine, as the spec's stubs. The
  externally visible subnet of the proxy, the seeded random source, the resolution of
  the endpoint's host name (by attempt number, resolver override and endpoint), and the
  HTTPS round trip: the \<open>n\<close>-th call, to an endpoint URL at an IP, with a subnet and a
  query, gives an HTTP status and the decoded body, \<open>None\<close> when it is malformed.
\<close>

record upstream =
  external_subnet :: string
  random_draw :: "nat \<Rightarrow> nat"
  resolve_host :: "nat \<Rightarrow> string \<Rightarrow> string \<Rightarrow> ip option"
  https :: "nat \<Rightarrow> string \<Rightarrow> ip \<Rightarrow> string option \<Rightarrow> dns_msg \<Rightarrow> nat \<times> dns_msg option"

text \<open>Modelled from the spec: case folding of the question name (ASCII letters).\<close>

definition lower_char :: "char \<Rightarrow> char" where
  "lower_char c =
     (let n = (of_char c :: nat) in if 65 \<le> n \<and> n \<le> 90 then char_of (n + 32) else c)"

text \<open>
  Modelled from the spec: the missing Subnet Resolver (4.2). Mode \<open>no\<close> gives no
  subnet, \<open>auto\<close> the subnet of the externally visible address, anything else is the
  configured literal (validated at startup).
\<close>

definition subnet_resolver :: "upstream \<Rightarrow> string \<Rightarrow> string option" where
  "subnet_resolver up mode =
     (if mode = ''no'' then None
      else if mode = ''auto'' then Some (external_subnet up)
      else Some mode)"

text \<open>
  Modelled from the spec: the fingerprint computation of the missing handler. A query
  must have exactly one question (\<open>UnsupportedQueryError\<close> otherwise).
\<close>

definition fingerprint_of :: "string option \<Rightarrow> dns_msg \<Rightarrow> engine_error + fingerprint" where
  "fingerprint_of subnet q =
     (case questions q of
        [qu] \<Rightarrow> Inr (map lower_char (qname qu), qtype qu, qclass qu, subnet)
      | _ \<Rightarrow> Inl UnsupportedQueryError)"

text \<open>
  Modelled from the spec: the missing Endpoint Resolver (4.1). With a fixed IP list,
  one of its members is drawn at random for each request; otherwise the endpoint's
  host name is resolved, through the resolver override when one is configured.
\<close>

definition endpoint_resolver :: "upstream \<Rightarrow> DMProvider \<Rightarrow> nat \<Rightarrow> ip option" where
  "endpoint_resolver up p n =
     (case EndpointIPs (p_options p) of
        [] \<Rightarrow> resolve_host up n (DnsResolver (p_options p)) (p_endpoint p)
      | a # as \<Rightarrow> Some ((a # as) ! (random_draw up n mod length (a # as))))"

text \<open>
  Modelled from the spec: the answer the missing engine synthesizes under the
  AAAA-disable policy, with success status and no records.
\<close>

definition empty_answer :: "dns_msg \<Rightarrow> dns_msg" where
  "empty_answer q =
     \<lparr>msg_id = msg_id q, response = True, rcode = RcodeSuccess,
      questions = questions q, answers = []\<rparr>"

text \<open>
  Modelled from the spec: the SERVFAIL answer of the missing handler, with the
  transaction ID and question of the incoming query.
\<close>

definition servfail :: "dns_msg \<Rightarrow> dns_msg" where
  "servfail q =
     \<lparr>msg_id = msg_id q, response = True, rcode = RcodeServerFailure,
      questions = questions q, answers = []\<rparr>"

text \<open>
  Modelled from the spec: \<open>Translate\<close> of the missing provider (4.3). Step 1 rejects a
  query that does not have exactly one question; step 6 short-circuits an AAAA question
  under the disable-AAAA policy before anything is sent; step 3 selects an IP and makes
  the HTTPS call, which is where the call counter moves; step 4 fails on a non-success
  status; step 5 fails on a malformed body. The encoding of the request (step 2) is
  left to the stub, which is given all that determines it.
\<close>

definition Translate ::
  "upstream \<Rightarrow> DMProvider \<Rightarrow> dns_msg \<Rightarrow> engine \<Rightarrow> (engine_error + dns_msg) \<times> engine" where
  "Translate up p q st =
     (case questions q of
        [qu] \<Rightarrow>
          (if NoAAAA (p_options p) \<and> qtype qu = TypeAAAA then (Inr (empty_answer q), st)
           else
             (case endpoint_resolver up p (picks st) of
                None \<Rightarrow> (Inl EndpointResolutionError, st\<lparr>picks := picks st + 1\<rparr>)
              | Some addr \<Rightarrow>
                  (case https up (calls st) (p_endpoint p) addr
                          (subnet_resolver up (EDNSSubnet (p_options p))) q of
                     (status, body) \<Rightarrow>
                       (let st' = st\<lparr>picks := picks st + 1, calls := calls st + 1\<rparr> in
                        if \<not> (200 \<le> status \<and> status < 300)
                        then (Inl (UpstreamHTTPError status), st')
                        else (case body of
                                None \<Rightarrow> (Inl UpstreamDecodeError, st')
                              | Some a \<Rightarrow> (Inr a, st'))))))
      | _ \<Rightarrow> (Inl UnsupportedQueryError, st))"

text \<open>
  Modelled from the spec: the effective TTL of an answer in the missing cache, the
  minimum TTL among its answer records and 0 when it has none.
\<close>

definition effective_ttl :: "dns_msg \<Rightarrow> nat" where
  "effective_ttl m =
     (case answers m of [] \<Rightarrow> 0 | r # rs \<Rightarrow> foldl min (rr_ttl r) (map rr_ttl rs))"

text \<open>
  Modelled from the spec: what the missing cache stores: an answer that is not an error
  response and whose effective TTL is not 0.
\<close>

definition cacheable :: "dns_msg \<Rightarrow> bool" where
  "cacheable m \<longleftrightarrow> rcode m = RcodeSuccess \<and> 0 < effective_ttl m"

text \<open>
  Modelled from the spec: \<open>Lookup\<close> of the missing Response Cache (4.4): a non-expired
  entry if present. Expiry is lazy, a comparison of the clock with insertion time plus
  effective TTL: the entry is served while the clock is before that instant. With the
  cache disabled every lookup misses.
\<close>

definition Lookup ::
  "bool \<Rightarrow> nat \<Rightarrow> (fingerprint \<rightharpoonup> cache_entry) \<Rightarrow> fingerprint \<Rightarrow> dns_msg option" where
  "Lookup enabled now c fp =
     (if \<not> enabled then None
      else case c fp of
        None \<Rightarrow> None
      | Some e \<Rightarrow> if now < ce_inserted e + ce_ttl e then Some (ce_answer e) else None)"

text \<open>
  Modelled from the spec: \<open>GetOrFetch\<close> of the missing Response Cache (4.4). A valid
  cached entry is returned at once; otherwise the fetch function runs, and its answer
  is stored, on success, with the TTL derived from it. With the cache disabled it
  degenerates to calling the fetch function.
\<close>

definition GetOrFetch ::
  "bool \<Rightarrow> nat \<Rightarrow> fingerprint \<Rightarrow> (engine \<Rightarrow> (engine_error + dns_msg) \<times> engine) \<Rightarrow> engine
     \<Rightarrow> (engine_error + dns_msg) \<times> engine" where
  "GetOrFetch enabled now fp fetchFn st =
     (if \<not> enabled then fetchFn st
      else case Lookup enabled now (cache st) fp of
        Some a \<Rightarrow> (Inr a, st)
      | None \<Rightarrow>
          (case fetchFn st of
             (Inl err, st') \<Rightarrow> (Inl err, st')
           | (Inr a, st') \<Rightarrow>
               (if cacheable a
                then (Inr a, st'\<lparr>cache := (cache st')(fp \<mapsto>
                        \<lparr>ce_fingerprint = fp, ce_answer = a, ce_inserted = now,
                         ce_ttl = effective_ttl a\<rparr>)\<rparr>)
                else (Inr a, st'))))"

text \<open>
  Modelled from the spec: the pipeline of the missing Protocol Handler (4.5):
  fingerprint, the AAAA-disable policy applied before the cache is consulted,
  then \<open>GetOrFetch\<close> with a fetch function bound to the translator.
\<close>

definition pipeline ::
  "upstream \<Rightarrow> Handler \<Rightarrow> nat \<Rightarrow> dns_msg \<Rightarrow> engine \<Rightarrow> (engine_error + dns_msg) \<times> engine" where
  "pipeline up h now q st =
     (let p = h_provider h in
      case fingerprint_of (subnet_resolver up (EDNSSubnet (p_options p))) q of
        Inl err \<Rightarrow> (Inl err, st)
      | Inr fp \<Rightarrow>
          (if NoAAAA (p_options p) \<and> fst (snd fp) = TypeAAAA then (Inr (empty_answer q), st)
           else GetOrFetch (Cache (h_options h)) now fp (Translate up p q) st))"

text \<open>
  Modelled from the spec: \<open>Handle\<close> of the missing Protocol Handler (4.5). An error of
  the pipeline becomes the SERVFAIL answer; the transport is always handed a message.
\<close>

definition Handle :: "upstream \<Rightarrow> Handler \<Rightarrow> nat \<Rightarrow> dns_msg \<Rightarrow> engine \<Rightarrow> dns_msg \<times> engine" where
  "Handle up h now q st =
     (case pipeline up h now q st of
        (Inl err, st') \<Rightarrow> (servfail q, st')
      | (Inr a, st') \<Rightarrow> (a, st'))"


text \<open>The engine at process start: nothing cached, nothing sent.\<close>

definition empty_engine :: engine where
  "empty_engine = \<lparr>cache = Map.empty, picks = 0, calls = 0\<rparr>"

text \<open>The handler \<^verbatim>\<open>main\<close> builds from the default flags (cache on, AAAA policy off).\<close>

definition default_handler :: Handler where
  "default_handler =
     NewHandler \<lparr>p_endpoint = gdnsEndpoint, p_options = provider_options default_flags []\<rparr>
                \<lparr>Cache = True\<rparr>"

text \<open>
  Concrete inputs of the examples below, after the spec's example scenario: a query
  for \<^verbatim>\<open>example.com\<close>, an answer with one A record of TTL 300, and a stubbed upstream
  that returns a fixed HTTP status and decoded body.
\<close>

definition example_query :: "nat \<Rightarrow> string \<Rightarrow> nat \<Rightarrow> dns_msg" where
  "example_query i name t =
     \<lparr>msg_id = i, response = False, rcode = 0,
      questions = [\<lparr>qname = name, qtype = t, qclass = 1\<rparr>], answers = []\<rparr>"

definition example_answer :: dns_msg where
  "example_answer =
     \<lparr>msg_id = 4660, response = True, rcode = 0,
      questions = [\<lparr>qname = ''example.com.'', qtype = 1, qclass = 1\<rparr>],
      answers = [\<lparr>rr_name = ''example.com.'', rr_type = 1, rr_class = 1, rr_ttl = 300,
                  rr_data = ''93.184.216.34''\<rparr>]\<rparr>"

definition stub_upstream :: "nat \<Rightarrow> dns_msg option \<Rightarrow> upstream" where
  "stub_upstream status body =
     \<lparr>external_subnet = ''203.0.113.0/24'',
      random_draw = (\<lambda>n. n),
      resolve_host = (\<lambda>n resolver url. Some ''8.8.8.8''),
      https = (\<lambda>n url addr subnet q. (status, body))\<rparr>"

text \<open>
  What every stored entry satisfies: filed under its own fingerprint, with the
  effective TTL of its answer, which is a success answer of effective TTL above 0.
\<close>

definition entry_ok :: "fingerprint \<Rightarrow> cache_entry \<Rightarrow> bool" where
  "entry_ok fp e \<longleftrightarrow>
     ce_fingerprint e = fp \<and> ce_ttl e = effective_ttl (ce_answer e) \<and> cacheable (ce_answer e)"

definition cache_ok :: "(fingerprint \<rightharpoonup> cache_entry) \<Rightarrow> bool" where
  "cache_ok c \<longleftrightarrow> (\<forall>fp e. c fp = Some e \<longrightarrow> entry_ok fp e)"

text \<open>The engine after a sequence of queries, each handled at its arrival time.\<close>

definition serve_queries :: "upstream \<Rightarrow> Handler \<Rightarrow> engine \<Rightarrow> (nat \<times> dns_msg) list \<Rightarrow> engine" where
  "serve_queries up h st reqs = foldl (\<lambda>s (now, q). snd (Handle up h now q s)) st reqs"

text \<open>A fetch result that the cache must not store: an error, an error response, or TTL 0.\<close>

definition not_cacheable :: "engine_error + dns_msg \<Rightarrow> bool" where
  "not_cacheable r =
     (case r of Inl err \<Rightarrow> True | Inr a \<Rightarrow> rcode a \<noteq> RcodeSuccess \<or> effective_ttl a = 0)"

text \<open>The fingerprint, the cache entry and the engine state the example scenario produces.\<close>

definition example_fp :: fingerprint where
  "example_fp = (''example.com.'', TypeA, 1, Some ''203.0.113.0/24'')"

definition example_entry :: cache_entry where
  "example_entry =
     \<lparr>ce_fingerprint = example_fp, ce_answer = example_answer, ce_inserted = 1000, ce_ttl = 300\<rparr>"

definition example_cached :: engine where
  "example_cached = \<lparr>cache = [example_fp \<mapsto> example_entry], picks = 1, calls = 1\<rparr>"

section \<open>Properties of startup\<close>

lemma run_exited: "exited s \<noteq> None \<Longrightarrow> run s es = s"
  unfolding run_def by (induction es) auto

lemma endpoint_kept:
  "\<not> sets_endpoint a \<Longrightarrow> endpointFlag (apply_setting f a) = endpointFlag f"
  by (cases a) simp_all

lemma endpoint_foldl:
  "list_all (\<lambda>a. \<not> sets_endpoint a) args \<Longrightarrow>
   endpointFlag (foldl apply_setting f args) = endpointFlag f"
  by (induction args arbitrary: f) (simp_all add: endpoint_kept)

lemma startup_endpoint:
  "main_startup e args = Ready a msgs \<Longrightarrow>
   p_endpoint (h_provider (app_handler a)) = endpointFlag (flag_Parse args)"
  by (auto simp: main_startup_def Let_def NewDMProvider_def NewHandler_def
      split: prod.splits option.splits)


lemma startup_accepting:
  "main_startup accepting_env args =
     Ready \<lparr>app_handler =
              NewHandler \<lparr>p_endpoint = endpointFlag (flag_Parse args),
                          p_options = provider_options (flag_Parse args) []\<rparr>
                         \<lparr>Cache = cacheFlag (flag_Parse args)\<rparr>,
            app_protocols = enabled_protocols (flag_Parse args),
            app_listen = listenAddressFlag (flag_Parse args),
            app_level = InfoLevel\<rparr>
           [Println_log_level InfoLevel]"
  by (simp add: main_startup_def accepting_env_def NewDMProvider_def Let_def)

lemma boot_accepting_default:
  "boot accepting_env [] =
     \<lparr>pc_main = M_loop [''tcp'', ''udp''], tasks = [], exited = None,
      out = [Println_log_level InfoLevel], shutdowns = [], listen = '':53''\<rparr>"
  by (simp add: boot_def startup_accepting flag_Parse_def default_flags_def enabled_protocols_def)

lemma config_error_exits:
  assumes "config_error e args"
  shows "\<exists>site msgs. main_startup e args = Exited site 1 msgs"
  using assms
  by (auto simp: config_error_def main_startup_def Let_def NewDMProvider_def
      split: prod.splits option.splits)

text \<open>
  C9. When no endpoint URL is configured (no \<^verbatim>\<open>-endpoint\<close> setting on the command
  line), the endpoint flag holds its default, and the endpoint URL that \<^verbatim>\<open>main\<close> hands
  to \<^verbatim>\<open>NewDMProvider\<close> for the upstream HTTPS requests is exactly
  \<^verbatim>\<open>https://dns.google/dns-query\<close>.
\<close>

theorem default_endpoint:
  assumes "list_all (\<lambda>a. \<not> sets_endpoint a) args"
  shows "endpointFlag (flag_Parse args) = ''https://dns.google/dns-query'' \<and>
         (\<forall>a msgs. main_startup e args = Ready a msgs \<longrightarrow>
            p_endpoint (h_provider (app_handler a)) = ''https://dns.google/dns-query'')"
proof -
  have "endpointFlag (flag_Parse args) = ''https://dns.google/dns-query''"
    using endpoint_foldl [OF assms, of default_flags]
    by (simp add: flag_Parse_def default_flags_def gdnsEndpoint_def)
  then show ?thesis by (simp add: startup_endpoint)
qed

theorem default_endpoint_witness:
  "list_all (\<lambda>a. \<not> sets_endpoint a) [Arg_listen '':5353'', Arg_udp False] \<and>
   (\<exists>a msgs. main_startup accepting_env [Arg_listen '':5353'', Arg_udp False] = Ready a msgs \<and>
      p_endpoint (h_provider (app_handler a)) = ''https://dns.google/dns-query'')"
proof -
  have h: "list_all (\<lambda>a. \<not> sets_endpoint a) [Arg_listen '':5353'', Arg_udp False]"
    by simp
  show ?thesis
    using h default_endpoint [OF h, of accepting_env]
    by (simp add: startup_accepting NewHandler_def)
qed

text \<open>
  C10. The branch of \<^verbatim>\<open>main\<close> that reports "error parsing dns-servers" is unreachable:
  whatever the flags and whatever \<^verbatim>\<open>CSVtoIPs\<close> returns, startup never exits there. The
  error it re-checks is the one the check before it has already turned into the
  "error parsing endpoint-ips" exit.
\<close>

theorem dns_servers_branch_unreachable:
  "main_startup e args \<noteq> Exited Fatal_dns_servers c msgs \<and>
   (snd (ParseLevel e (logLevelFlag (flag_Parse args))) = None \<and>
    snd (CSVtoIPs e (endpointIPsFlag (flag_Parse args))) = Some msg \<longrightarrow>
    main_startup e args =
      Exited Fatal_endpoint_ips 1
        [Println_log_level (fst (ParseLevel e (logLevelFlag (flag_Parse args)))),
         Log FatalLevel (''error parsing endpoint-ips: '' @ msg)])"
  by (auto simp: main_startup_def Let_def split: prod.splits option.splits)

theorem dns_servers_branch_unreachable_witness:
  "main_startup (accepting_env\<lparr>CSVtoIPs := (\<lambda>s. ([], Some ''invalid IP''))\<rparr>)
      [Arg_endpoint_ips ''1.2.3''] \<noteq> Exited Fatal_dns_servers 1 [] \<and>
   main_startup (accepting_env\<lparr>CSVtoIPs := (\<lambda>s. ([], Some ''invalid IP''))\<rparr>)
      [Arg_endpoint_ips ''1.2.3''] =
     Exited Fatal_endpoint_ips 1
       [Println_log_level InfoLevel, Log FatalLevel ''error parsing endpoint-ips: invalid IP'']"
  using dns_servers_branch_unreachable
    [of "accepting_env\<lparr>CSVtoIPs := (\<lambda>s. ([], Some ''invalid IP''))\<rparr>"
        "[Arg_endpoint_ips ''1.2.3'']" 1 "[]" "''invalid IP''"]
  by (simp add: accepting_env_def)

text \<open>
  C7. A startup configuration error (the log level, the endpoint-IP list or the
  provider configuration is rejected) makes \<^verbatim>\<open>main\<close> exit with status 1 at one of its
  fatal calls, before the listener loop: however the run continues, no listener
  goroutine exists and no transport is served.
\<close>

theorem config_error_no_listener:
  assumes "config_error e args"
  shows "(\<exists>site msgs. main_startup e args = Exited site 1 msgs) \<and>
         (\<forall>es. tasks (run (boot e args) es) = [] \<and>
               exited (run (boot e args) es) = Some (ExitCode 1) \<and>
               (\<forall>p. \<not> serving (run (boot e args) es) p))"
proof -
  from config_error_exits [OF assms] obtain site msgs
    where ex: "main_startup e args = Exited site 1 msgs" by blast
  then have b: "exited (boot e args) = Some (ExitCode 1)" "tasks (boot e args) = []"
    by (simp_all add: boot_def)
  then have "run (boot e args) es = boot e args" for es
    by (simp add: run_exited)
  with b ex show ?thesis by (simp add: serving_def)
qed

theorem config_error_no_listener_witness:
  "config_error rejecting_env [Arg_loglevel ''verbose''] \<and>
   main_startup rejecting_env [Arg_loglevel ''verbose''] =
     Exited Fatal_log_level 1
       [Log FatalLevel ''invalid log level: not a valid logrus Level: verbose''] \<and>
   tasks (run (boot rejecting_env [Arg_loglevel ''verbose'']) [MainStep, Handoff 0, TaskStep 0]) = []"
proof -
  have h: "config_error rejecting_env [Arg_loglevel ''verbose'']"
    by (simp add: config_error_def rejecting_env_def)
  show ?thesis
    using h config_error_no_listener [OF h]
    by (simp add: main_startup_def rejecting_env_def flag_Parse_def default_flags_def)
qed

section \<open>Properties of the listener tasks\<close>













lemma run_Cons: "run s (e # es) = run (step s e) es"
  by (simp add: run_def)

lemma run_append: "run s (es @ es') = run (run s es) es'"
  by (simp add: run_def)















lemma run_Nil: "run s [] = s"
  by (simp add: run_def)













lemma run_started_default:
  "run (boot accepting_env [])
       start_both =
     \<lparr>pc_main = M_wait, tasks = [T_listen ''tcp'', T_listen ''udp''], exited = None,
      out = [Println_log_level InfoLevel,
             Log InfoLevel ''starting tcp service on :53'',
             Log InfoLevel ''starting udp service on :53''],
      shutdowns = [], listen = '':53''\<rparr>"
  by (simp add: start_both_def boot_accepting_default run_def main_step_def handoff_def
      task_step_def)



text \<open>
  C1 as stated fails. With both transports serving, an error returned by the TCP
  listener's \<^verbatim>\<open>ListenAndServe\<close> takes \<^verbatim>\<open>serve\<close> to \<^verbatim>\<open>log.Fatalf\<close>: the process exits
  with status 1 and UDP is no longer served.
\<close>

theorem listener_failure_counterexample:
  "serving (run (boot accepting_env [])
       start_both) ''udp'' \<and>
   \<not> serving (run (boot accepting_env [])
       (start_both @ [ListenReturns 0 (Some ''listen tcp :53: bind: address already in use'')])) ''udp'' \<and>
   exited (run (boot accepting_env [])
       (start_both @ [ListenReturns 0 (Some ''listen tcp :53: bind: address already in use'')]))
     = Some (ExitCode 1)"
  by (simp add: run_append run_started_default run_Cons run_Nil listen_returns_def serving_def)

text \<open>
  C1, amended. If \<^verbatim>\<open>ListenAndServe\<close> of one transport's listener returns an error,
  \<^verbatim>\<open>serve\<close> logs "Failed to setup the ... server" at fatal level and the whole process
  exits with status 1: from then on no transport is served and nothing moves.
\<close>

theorem listener_failure_exits_process:
  assumes "exited s = None" and "i < length (tasks s)" and "tasks s ! i = T_listen p"
  shows "exited (step s (ListenReturns i (Some msg))) = Some (ExitCode 1) \<and>
         out (step s (ListenReturns i (Some msg))) =
           out s @ [Log FatalLevel (''Failed to setup the '' @ p @ '' server: '' @ msg @ [CHR 0x0A])] \<and>
         (\<forall>q. \<not> serving (step s (ListenReturns i (Some msg))) q) \<and>
         (\<forall>es. run (step s (ListenReturns i (Some msg))) es = step s (ListenReturns i (Some msg)))"
proof -
  have ex: "exited (step s (ListenReturns i (Some msg))) = Some (ExitCode 1)"
    using assms by (simp add: listen_returns_def)
  moreover have "out (step s (ListenReturns i (Some msg))) =
      out s @ [Log FatalLevel (''Failed to setup the '' @ p @ '' server: '' @ msg @ [CHR 0x0A])]"
    using assms by (simp add: listen_returns_def)
  moreover have "\<not> serving (step s (ListenReturns i (Some msg))) q" for q
    using ex by (simp only: serving_def) simp
  moreover have "run (step s (ListenReturns i (Some msg))) es = step s (ListenReturns i (Some msg))"
    for es using ex by (simp only: run_exited option.distinct not_False_eq_True)
  ultimately show ?thesis by blast
qed

theorem listener_failure_exits_process_witness:
  "exited (step (run (boot accepting_env [])
       start_both)
     (ListenReturns 1 (Some ''listen udp :53: bind: permission denied''))) = Some (ExitCode 1) \<and>
   \<not> serving (step (run (boot accepting_env [])
       start_both)
     (ListenReturns 1 (Some ''listen udp :53: bind: permission denied''))) ''tcp''"
proof -
  let ?s = "run (boot accepting_env [])
       start_both"
  have h: "exited ?s = None" "1 < length (tasks ?s)" "tasks ?s ! 1 = T_listen ''udp''"
    by (simp_all add: run_started_default)
  show ?thesis
    using listener_failure_exits_process [OF h, of "''listen udp :53: bind: permission denied''"]
    by blast
qed

text \<open>
  C6 on the code. With both listeners serving, the signal lets \<^verbatim>\<open>main\<close> log
  "servers exited, stopping" and return, which ends the process with status 0 while
  both goroutines are still inside \<^verbatim>\<open>ListenAndServe\<close>: \<^verbatim>\<open>server.Shutdown()\<close> has been
  invoked on no listener.
\<close>

theorem signal_exits_without_shutdown:
  "exited (run (boot accepting_env [])
       (start_both @ [Signal]))
     = Some (ExitCode 0) \<and>
   tasks (run (boot accepting_env [])
       (start_both @ [Signal]))
     = [T_listen ''tcp'', T_listen ''udp''] \<and>
   shutdowns (run (boot accepting_env [])
       (start_both @ [Signal]))
     = []"
  by (simp add: run_append run_started_default run_Cons run_Nil signal_def)


section \<open>Properties of the query engine\<close>

lemma fingerprint_single:
  "fingerprint_of sub q = Inr fp \<Longrightarrow>
   \<exists>qu. questions q = [qu] \<and> fp = (map lower_char (qname qu), qtype qu, qclass qu, sub)"
  by (auto simp: fingerprint_of_def split: list.splits)

lemma foldl_min_le: "foldl min (a::nat) xs \<le> a"
proof (induction xs arbitrary: a)
  case Nil
  then show ?case by simp
next
  case (Cons y ys)
  have "foldl min (min a y) ys \<le> min a y" by (rule Cons.IH)
  then show ?case by simp
qed

lemma foldl_min_le_all: "x \<in> set xs \<Longrightarrow> foldl min (a::nat) xs \<le> x"
proof (induction xs arbitrary: a)
  case Nil
  then show ?case by simp
next
  case (Cons y ys)
  show ?case
  proof (cases "x = y")
    case True
    have "foldl min (min a y) ys \<le> min a y" by (rule foldl_min_le)
    then show ?thesis using True by simp
  next
    case False
    then show ?thesis using Cons by simp
  qed
qed

lemma foldl_min_mem: "foldl min (a::nat) xs \<in> insert a (set xs)"
proof (induction xs arbitrary: a)
  case Nil
  then show ?case by simp
next
  case (Cons y ys)
  have ih: "foldl min (min a y) ys \<in> insert (min a y) (set ys)" by (rule Cons.IH)
  have "min a y = a \<or> min a y = y" by (simp add: min_def)
  with ih show ?case by auto
qed

lemma effective_ttl_lower:
  "r \<in> set (answers m) \<Longrightarrow> effective_ttl m \<le> rr_ttl r"
  by (cases "answers m") (auto simp: effective_ttl_def foldl_min_le intro: foldl_min_le_all)

lemma effective_ttl_attained:
  "answers m \<noteq> [] \<Longrightarrow> effective_ttl m \<in> rr_ttl ` set (answers m)"
  using foldl_min_mem [of "rr_ttl (hd (answers m))" "map rr_ttl (tl (answers m))"]
  by (cases "answers m") (auto simp: effective_ttl_def)

lemma Translate_cache: "cache (snd (Translate up p q st)) = cache st"
  by (auto simp: Translate_def Let_def split: list.splits option.splits prod.splits)

lemma Translate_success:
  assumes "Translate up p q st = (Inr a, st')"
  shows "(a = empty_answer q \<and> st' = st) \<or> (cache st' = cache st \<and> calls st' = calls st + 1)"
  using assms
  by (auto simp: Translate_def Let_def split: list.splits option.splits prod.splits if_splits)

lemma pipeline_Handle:
  "pipeline up h now q st = (r, st') \<Longrightarrow>
   Handle up h now q st = (case r of Inl err \<Rightarrow> servfail q | Inr a \<Rightarrow> a, st')"
  by (simp add: Handle_def split: sum.splits)

text \<open>
  C2. Whenever the pipeline (fingerprint, cache, translator) returns an error for an
  incoming query, \<open>Handle\<close> returns the SERVFAIL message: a response with status
  SERVFAIL, no records, and the transaction ID and question of the query. \<open>Handle\<close>
  returns a message in every case; no error reaches the transport.
\<close>

theorem handle_error_gives_servfail:
  assumes "fst (pipeline up h now q st) = Inl err"
  shows "fst (Handle up h now q st) = servfail q \<and>
         snd (Handle up h now q st) = snd (pipeline up h now q st) \<and>
         msg_id (fst (Handle up h now q st)) = msg_id q \<and>
         questions (fst (Handle up h now q st)) = questions q \<and>
         rcode (fst (Handle up h now q st)) = RcodeServerFailure \<and>
         response (fst (Handle up h now q st)) \<and>
         answers (fst (Handle up h now q st)) = []"
proof -
  obtain r st' where p: "pipeline up h now q st = (r, st')" by (cases "pipeline up h now q st")
  with assms have "r = Inl err" by simp
  with pipeline_Handle [OF p] have "Handle up h now q st = (servfail q, st')" by simp
  with p show ?thesis by (simp add: servfail_def)
qed

lemma pipeline_upstream_503:
  "pipeline (stub_upstream 503 None) default_handler 1000 (example_query 7 ''example.com.'' TypeA)
     empty_engine = (Inl (UpstreamHTTPError 503), \<lparr>cache = Map.empty, picks = 1, calls = 1\<rparr>)"
  by (simp add: pipeline_def default_handler_def NewHandler_def provider_options_def
      default_flags_def subnet_resolver_def stub_upstream_def fingerprint_of_def example_query_def
      TypeA_def TypeAAAA_def GetOrFetch_def Lookup_def empty_engine_def Translate_def
      endpoint_resolver_def Let_def)

theorem handle_error_gives_servfail_witness:
  "fst (pipeline (stub_upstream 503 None) default_handler 1000 (example_query 7 ''example.com.'' TypeA)
     empty_engine) = Inl (UpstreamHTTPError 503) \<and>
   fst (Handle (stub_upstream 503 None) default_handler 1000 (example_query 7 ''example.com.'' TypeA)
     empty_engine) =
     \<lparr>msg_id = 7, response = True, rcode = 2,
      questions = [\<lparr>qname = ''example.com.'', qtype = 1, qclass = 1\<rparr>], answers = []\<rparr>"
proof -
  have h: "fst (pipeline (stub_upstream 503 None) default_handler 1000
     (example_query 7 ''example.com.'' TypeA) empty_engine) = Inl (UpstreamHTTPError 503)"
    by (simp add: pipeline_upstream_503)
  from handle_error_gives_servfail [OF h]
  have "fst (Handle (stub_upstream 503 None) default_handler 1000
     (example_query 7 ''example.com.'' TypeA) empty_engine) = servfail (example_query 7 ''example.com.'' TypeA)"
    by blast
  with h show ?thesis
    by (simp add: servfail_def example_query_def RcodeServerFailure_def TypeA_def)
qed

lemma startup_noAAAA:
  "main_startup e args = Ready a msgs \<Longrightarrow>
   NoAAAA (p_options (h_provider (app_handler a))) = noAAAAFlag (flag_Parse args) \<and>
   Cache (h_options (app_handler a)) = cacheFlag (flag_Parse args)"
  by (auto simp: main_startup_def Let_def NewDMProvider_def NewHandler_def provider_options_def
      split: prod.splits option.splits)

lemma aaaa_short_circuit:
  assumes "NoAAAA (p_options (h_provider h))" and "questions q = [qu]" and "qtype qu = TypeAAAA"
  shows "Handle up h now q st = (empty_answer q, st)"
    and "Translate up (h_provider h) q st = (Inr (empty_answer q), st)"
  using assms by (simp_all add: Handle_def pipeline_def fingerprint_of_def Translate_def Let_def)

text \<open>
  C5. With \<^verbatim>\<open>-no-ipv6\<close> set, whatever the cache flag, a query whose question has type
  AAAA is answered with the empty success answer, by the handler and by the
  translator alike, and the engine state, the upstream call counter included, is
  unchanged.
\<close>

theorem aaaa_disabled_no_upstream:
  assumes "main_startup e args = Ready a msgs" and "noAAAAFlag (flag_Parse args)"
    and "questions q = [qu]" and "qtype qu = TypeAAAA"
  shows "Handle up (app_handler a) now q st = (empty_answer q, st) \<and>
         Translate up (h_provider (app_handler a)) q st = (Inr (empty_answer q), st) \<and>
         rcode (fst (Handle up (app_handler a) now q st)) = RcodeSuccess \<and>
         answers (fst (Handle up (app_handler a) now q st)) = [] \<and>
         calls (snd (Handle up (app_handler a) now q st)) = calls st"
proof -
  have no: "NoAAAA (p_options (h_provider (app_handler a)))"
    using startup_noAAAA [OF assms(1)] assms(2) by simp
  show ?thesis
    using aaaa_short_circuit [OF no assms(3) assms(4)]
    by (simp add: empty_answer_def)
qed

lemma startup_no_ipv6:
  "main_startup accepting_env [Arg_no_ipv6 True, Arg_cache c] =
     Ready \<lparr>app_handler =
              NewHandler \<lparr>p_endpoint = endpointFlag (flag_Parse [Arg_no_ipv6 True, Arg_cache c]),
                          p_options = provider_options (flag_Parse [Arg_no_ipv6 True, Arg_cache c]) []\<rparr>
                         \<lparr>Cache = cacheFlag (flag_Parse [Arg_no_ipv6 True, Arg_cache c])\<rparr>,
            app_protocols = enabled_protocols (flag_Parse [Arg_no_ipv6 True, Arg_cache c]),
            app_listen = listenAddressFlag (flag_Parse [Arg_no_ipv6 True, Arg_cache c]),
            app_level = InfoLevel\<rparr>
           [Println_log_level InfoLevel]"
  by (rule startup_accepting)

theorem aaaa_disabled_no_upstream_witness:
  "noAAAAFlag (flag_Parse [Arg_no_ipv6 True, Arg_cache False]) \<and>
   questions (example_query 9 ''example.com.'' TypeAAAA)
     = [\<lparr>qname = ''example.com.'', qtype = TypeAAAA, qclass = 1\<rparr>] \<and>
   (\<exists>a msgs. main_startup accepting_env [Arg_no_ipv6 True, Arg_cache False] = Ready a msgs \<and>
      Handle (stub_upstream 200 (Some example_answer)) (app_handler a) 1000
          (example_query 9 ''example.com.'' TypeAAAA) empty_engine
        = (\<lparr>msg_id = 9, response = True, rcode = 0,
            questions = [\<lparr>qname = ''example.com.'', qtype = TypeAAAA, qclass = 1\<rparr>],
            answers = []\<rparr>, empty_engine))"
proof -
  have f: "noAAAAFlag (flag_Parse [Arg_no_ipv6 True, Arg_cache False])"
    by (simp add: flag_Parse_def)
  have q: "questions (example_query 9 ''example.com.'' TypeAAAA)
     = [\<lparr>qname = ''example.com.'', qtype = TypeAAAA, qclass = 1\<rparr>]"
    by (simp add: example_query_def)
  have t: "qtype \<lparr>qname = ''example.com.'', qtype = TypeAAAA, qclass = 1\<rparr> = TypeAAAA"
    by simp
  from aaaa_disabled_no_upstream [OF startup_no_ipv6 f q t]
  have "Handle (stub_upstream 200 (Some example_answer))
          (NewHandler \<lparr>p_endpoint = endpointFlag (flag_Parse [Arg_no_ipv6 True, Arg_cache False]),
                       p_options = provider_options (flag_Parse [Arg_no_ipv6 True, Arg_cache False]) []\<rparr>
                      \<lparr>Cache = cacheFlag (flag_Parse [Arg_no_ipv6 True, Arg_cache False])\<rparr>)
          1000 (example_query 9 ''example.com.'' TypeAAAA) empty_engine
        = (empty_answer (example_query 9 ''example.com.'' TypeAAAA), empty_engine)"
    by simp
  then show ?thesis
    using f q
    by (simp add: startup_no_ipv6 empty_answer_def example_query_def RcodeSuccess_def)
qed

lemma Lookup_stored:
  "t1 < t0 + effective_ttl a \<Longrightarrow>
   Lookup True t1 (c(fp \<mapsto> \<lparr>ce_fingerprint = fp, ce_answer = a, ce_inserted = t0,
                              ce_ttl = effective_ttl a\<rparr>)) fp = Some a"
  by (simp add: Lookup_def)

lemma pipeline_hit:
  assumes "Cache (h_options h)"
    and "fingerprint_of (subnet_resolver up (EDNSSubnet (p_options (h_provider h)))) q = Inr fp"
    and "\<not> (NoAAAA (p_options (h_provider h)) \<and> fst (snd fp) = TypeAAAA)"
    and "Lookup True now (cache st) fp = Some a"
  shows "pipeline up h now q st = (Inr a, st)"
  using assms by (auto simp: pipeline_def GetOrFetch_def Let_def)

lemma pipeline_miss:
  assumes "Cache (h_options h)"
    and "fingerprint_of (subnet_resolver up (EDNSSubnet (p_options (h_provider h)))) q = Inr fp"
    and "\<not> (NoAAAA (p_options (h_provider h)) \<and> fst (snd fp) = TypeAAAA)"
    and "Lookup True now (cache st) fp = None"
  shows "pipeline up h now q st =
     (case Translate up (h_provider h) q st of
        (Inl err, st') \<Rightarrow> (Inl err, st')
      | (Inr a, st') \<Rightarrow>
          (if cacheable a
           then (Inr a, st'\<lparr>cache := (cache st')(fp \<mapsto>
                   \<lparr>ce_fingerprint = fp, ce_answer = a, ce_inserted = now,
                    ce_ttl = effective_ttl a\<rparr>)\<rparr>)
           else (Inr a, st')))"
  using assms by (auto simp: pipeline_def GetOrFetch_def Let_def)

text \<open>
  C3. With caching enabled, let a query that is not served from the cache be resolved
  with a success answer of effective TTL above 0. A second query with the same
  fingerprint, arriving before insertion time plus that TTL, gets the identical answer
  and leaves the engine as it was: across both queries the upstream call counter has
  moved by exactly one.
\<close>

theorem cached_answer_served_once:
  assumes en: "Cache (h_options h)"
    and fp1: "fingerprint_of (subnet_resolver up (EDNSSubnet (p_options (h_provider h)))) q1 = Inr fp"
    and fp2: "fingerprint_of (subnet_resolver up (EDNSSubnet (p_options (h_provider h)))) q2 = Inr fp"
    and miss: "Lookup True t0 (cache st) fp = None"
    and first: "Handle up h t0 q1 st = (a1, st1)"
    and ok: "rcode a1 = RcodeSuccess"
    and ttl: "0 < effective_ttl a1"
    and later: "t0 \<le> t1"
    and within: "t1 < t0 + effective_ttl a1"
  shows "Handle up h t1 q2 st1 = (a1, st1) \<and> calls st1 = calls st + 1"
proof -
  from fingerprint_single [OF fp1] obtain qu
    where qu: "questions q1 = [qu]" "fp = (map lower_char (qname qu), qtype qu, qclass qu,
      subnet_resolver up (EDNSSubnet (p_options (h_provider h))))" by blast
  have pol: "\<not> (NoAAAA (p_options (h_provider h)) \<and> fst (snd fp) = TypeAAAA)"
  proof
    assume "NoAAAA (p_options (h_provider h)) \<and> fst (snd fp) = TypeAAAA"
    then have "Handle up h t0 q1 st = (empty_answer q1, st)"
      using qu by (simp add: aaaa_short_circuit(1))
    with first have "a1 = empty_answer q1" by simp
    with ttl show False by (simp add: effective_ttl_def empty_answer_def)
  qed
  obtain r st' where tr: "Translate up (h_provider h) q1 st = (r, st')"
    by (cases "Translate up (h_provider h) q1 st")
  have a: "r = Inr a1"
  proof (cases r)
    case (Inl err)
    then have "pipeline up h t0 q1 st = (Inl err, st')"
      using pipeline_miss [OF en fp1 pol miss] tr by simp
    from pipeline_Handle [OF this] first have "a1 = servfail q1" by simp
    with ok show ?thesis by (simp add: servfail_def RcodeServerFailure_def RcodeSuccess_def)
  next
    case (Inr a)
    then have "fst (pipeline up h t0 q1 st) = Inr a"
      using pipeline_miss [OF en fp1 pol miss] tr by simp
    then obtain s' where "pipeline up h t0 q1 st = (Inr a, s')"
      by (cases "pipeline up h t0 q1 st") simp
    from pipeline_Handle [OF this] first have "a1 = a" by simp
    with Inr show ?thesis by simp
  qed
  have c: "cacheable a1" using ok ttl by (simp add: cacheable_def)
  have p1: "pipeline up h t0 q1 st =
      (Inr a1, st'\<lparr>cache := (cache st')(fp \<mapsto>
         \<lparr>ce_fingerprint = fp, ce_answer = a1, ce_inserted = t0,
          ce_ttl = effective_ttl a1\<rparr>)\<rparr>)"
    using pipeline_miss [OF en fp1 pol miss] tr a c by simp
  from pipeline_Handle [OF p1] first
  have st1: "st1 = st'\<lparr>cache := (cache st')(fp \<mapsto>
         \<lparr>ce_fingerprint = fp, ce_answer = a1, ce_inserted = t0,
          ce_ttl = effective_ttl a1\<rparr>)\<rparr>"
    by simp
  have "a1 \<noteq> empty_answer q1" using ttl by (auto simp: effective_ttl_def empty_answer_def)
  with Translate_success [of up "h_provider h" q1 st a1 st'] tr a
  have calls: "calls st' = calls st + 1" by simp
  have hit: "Lookup True t1 (cache st1) fp = Some a1"
    using st1 within by (simp add: Lookup_stored)
  from pipeline_Handle [OF pipeline_hit [OF en fp2 pol hit]]
  have "Handle up h t1 q2 st1 = (a1, st1)" by simp
  with calls st1 show ?thesis by simp
qed

lemma GetOrFetch_cache_ok:
  assumes ok: "cache_ok (cache st)" and f: "cache (snd (f st)) = cache st"
  shows "cache_ok (cache (snd (GetOrFetch en now fp f st)))"
proof (cases "f st")
  case (Pair r st')
  with f have c: "cache st' = cache st" by simp
  show ?thesis
  proof (cases r)
    case (Inl err)
    then show ?thesis using Pair ok c
      by (simp add: GetOrFetch_def split: option.splits)
  next
    case (Inr a)
    then show ?thesis using Pair ok c
      by (auto simp: GetOrFetch_def cache_ok_def entry_ok_def split: option.splits)
  qed
qed

lemma Handle_cache_ok:
  assumes "cache_ok (cache st)"
  shows "cache_ok (cache (snd (Handle up h now q st)))"
proof -
  have "cache_ok (cache (snd (pipeline up h now q st)))"
    using assms
      GetOrFetch_cache_ok [where f = "Translate up (h_provider h) q", OF assms Translate_cache]
    by (auto simp: pipeline_def Let_def split: sum.splits)
  moreover have "snd (Handle up h now q st) = snd (pipeline up h now q st)"
    by (cases "pipeline up h now q st") (simp add: Handle_def split: sum.splits)
  ultimately show ?thesis by simp
qed

lemma serve_queries_cache_ok:
  "cache_ok (cache st) \<Longrightarrow> cache_ok (cache (serve_queries up h st reqs))"
  unfolding serve_queries_def
  by (induction reqs arbitrary: st) (auto simp: Handle_cache_ok)

lemma Lookup_expired:
  "c fp = Some e \<Longrightarrow> ce_inserted e + ce_ttl e \<le> now \<Longrightarrow> Lookup en now c fp = None"
  by (simp add: Lookup_def)

lemma Lookup_miss_later:
  "Lookup True now c fp = None \<Longrightarrow> now \<le> now' \<Longrightarrow> Lookup True now' c fp = None"
  by (auto simp: Lookup_def split: option.splits if_splits)

lemma GetOrFetch_miss_result:
  "Lookup True now (cache st) fp = None \<Longrightarrow> fst (GetOrFetch True now fp g st) = fst (g st)"
  by (cases "g st") (auto simp: GetOrFetch_def split: sum.splits)

lemma GetOrFetch_not_stored:
  assumes "Lookup True now (cache st) fp = None" and "f st = (r, st0)" and "not_cacheable r"
  shows "GetOrFetch True now fp f st = (r, st0)"
  using assms
  by (auto simp: GetOrFetch_def not_cacheable_def cacheable_def split: sum.splits)

text \<open>
  C4. In every cache the handler can build from the empty one, each entry carries the
  effective TTL of its answer, which is the minimum TTL among the answer's records,
  is above 0, and belongs to a success answer; a lookup after insertion time plus that
  TTL does not return the entry. A fetch that fails, or whose answer is an error
  response or has effective TTL 0, is handed back without being stored, and while the
  cache stays as it was every later request for the fingerprint misses and takes its
  result from a fresh fetch.
\<close>

theorem cache_expiry_and_no_store:
  "(\<forall>fp e. cache (serve_queries up h empty_engine reqs) fp = Some e \<longrightarrow>
      ce_ttl e = effective_ttl (ce_answer e) \<and>
      0 < ce_ttl e \<and>
      rcode (ce_answer e) = RcodeSuccess \<and>
      (\<forall>r \<in> set (answers (ce_answer e)). ce_ttl e \<le> rr_ttl r) \<and>
      ce_ttl e \<in> rr_ttl ` set (answers (ce_answer e)) \<and>
      (\<forall>en now. ce_inserted e + ce_ttl e < now \<longrightarrow>
         Lookup en now (cache (serve_queries up h empty_engine reqs)) fp = None)) \<and>
   (\<forall>st now fp f r st0.
      Lookup True now (cache st) fp = None \<and> f st = (r, st0) \<and> not_cacheable r \<longrightarrow>
      GetOrFetch True now fp f st = (r, st0) \<and>
      (cache st0 = cache st \<longrightarrow>
         (\<forall>now' g. now \<le> now' \<longrightarrow>
            Lookup True now' (cache st0) fp = None \<and>
            fst (GetOrFetch True now' fp g st0) = fst (g st0))))"
proof (intro conjI allI impI ballI)
  fix fp e
  assume e: "cache (serve_queries up h empty_engine reqs) fp = Some e"
  have "cache_ok (cache (serve_queries up h empty_engine reqs))"
    by (rule serve_queries_cache_ok) (simp add: cache_ok_def empty_engine_def)
  with e have ok: "entry_ok fp e" unfolding cache_ok_def by blast
  then show ttl: "ce_ttl e = effective_ttl (ce_answer e)" by (simp add: entry_ok_def)
  from ok show pos: "0 < ce_ttl e" by (simp add: entry_ok_def cacheable_def)
  from ok show "rcode (ce_answer e) = RcodeSuccess" by (simp add: entry_ok_def cacheable_def)
  from pos ttl have ne: "answers (ce_answer e) \<noteq> []" by (auto simp: effective_ttl_def)
  then show "ce_ttl e \<in> rr_ttl ` set (answers (ce_answer e))"
    using ttl effective_ttl_attained by simp
  {
    fix r
    assume "r \<in> set (answers (ce_answer e))"
    then show "ce_ttl e \<le> rr_ttl r" using ttl effective_ttl_lower by simp
  }
  {
    fix en now
    assume "ce_inserted e + ce_ttl e < now"
    then show "Lookup en now (cache (serve_queries up h empty_engine reqs)) fp = None"
      using e by (simp add: Lookup_expired)
  }
next
  fix st :: engine and now fp and f :: "engine \<Rightarrow> (engine_error + dns_msg) \<times> engine"
    and r and st0 :: engine
  assume a: "Lookup True now (cache st) fp = None \<and> f st = (r, st0) \<and> not_cacheable r"
  then show "GetOrFetch True now fp f st = (r, st0)" by (simp add: GetOrFetch_not_stored)
  fix now' and g :: "engine \<Rightarrow> (engine_error + dns_msg) \<times> engine"
  assume c: "cache st0 = cache st" and le: "now \<le> now'"
  from a have "Lookup True now (cache st) fp = None" by simp
  from Lookup_miss_later [OF this le] c show m: "Lookup True now' (cache st0) fp = None"
    by simp
  then show "fst (GetOrFetch True now' fp g st0) = fst (g st0)"
    by (rule GetOrFetch_miss_result)
qed

lemma lower_mixed: "map lower_char ''EXAMPLE.com.'' = ''example.com.''"
  by code_simp

lemma lower_plain: "map lower_char ''example.com.'' = ''example.com.''"
  by code_simp

lemma example_subnet:
  "subnet_resolver (stub_upstream status body) (EDNSSubnet (p_options (h_provider default_handler)))
     = Some ''203.0.113.0/24''"
  by (simp add: subnet_resolver_def stub_upstream_def default_handler_def NewHandler_def
      provider_options_def default_flags_def)

lemma example_fingerprints:
  "fingerprint_of (Some ''203.0.113.0/24'') (example_query i ''example.com.'' TypeA) = Inr example_fp"
  "fingerprint_of (Some ''203.0.113.0/24'') (example_query i ''EXAMPLE.com.'' TypeA) = Inr example_fp"
  by (simp_all only: fingerprint_of_def example_query_def example_fp_def lower_mixed lower_plain
      dns_msg.simps question.simps list.case)

lemma example_ttl: "effective_ttl example_answer = 300" "rcode example_answer = RcodeSuccess"
  by (simp_all add: effective_ttl_def example_answer_def RcodeSuccess_def)

lemma example_first:
  "Handle (stub_upstream 200 (Some example_answer)) default_handler 1000
     (example_query 4660 ''example.com.'' TypeA) empty_engine = (example_answer, example_cached)"
proof -
  have t: "Translate (stub_upstream 200 (Some example_answer)) (h_provider default_handler)
      (example_query 4660 ''example.com.'' TypeA) empty_engine
      = (Inr example_answer, \<lparr>cache = Map.empty, picks = 1, calls = 1\<rparr>)"
    by (simp add: Translate_def example_query_def default_handler_def NewHandler_def
        provider_options_def default_flags_def TypeA_def TypeAAAA_def endpoint_resolver_def
        stub_upstream_def empty_engine_def Let_def)
  have c: "cacheable example_answer" by (simp add: cacheable_def example_ttl)
  have n: "\<not> (NoAAAA (p_options (h_provider default_handler)) \<and> fst (snd example_fp) = TypeAAAA)"
    by (simp add: default_handler_def NewHandler_def provider_options_def default_flags_def)
  have e: "Cache (h_options default_handler)" by (simp add: default_handler_def NewHandler_def)
  have m: "Lookup True 1000 (cache empty_engine) example_fp = None"
    by (simp add: Lookup_def empty_engine_def)
  have f: "fingerprint_of (subnet_resolver (stub_upstream 200 (Some example_answer))
             (EDNSSubnet (p_options (h_provider default_handler))))
             (example_query 4660 ''example.com.'' TypeA) = Inr example_fp"
    by (simp only: example_subnet example_fingerprints)
  have "pipeline (stub_upstream 200 (Some example_answer)) default_handler 1000
     (example_query 4660 ''example.com.'' TypeA) empty_engine = (Inr example_answer, example_cached)"
    by (simp add: pipeline_miss [OF e f n m] t c example_cached_def example_entry_def example_ttl)
  from pipeline_Handle [OF this] show ?thesis by simp
qed

theorem cached_answer_served_once_witness:
  "Cache (h_options default_handler) \<and>
   Lookup True 1000 (cache empty_engine) example_fp = None \<and>
   Handle (stub_upstream 200 (Some example_answer)) default_handler 1000
     (example_query 4660 ''example.com.'' TypeA) empty_engine = (example_answer, example_cached) \<and>
   effective_ttl example_answer = 300 \<and>
   Handle (stub_upstream 200 (Some example_answer)) default_handler 1299
     (example_query 4661 ''EXAMPLE.com.'' TypeA) example_cached = (example_answer, example_cached) \<and>
   calls example_cached = calls empty_engine + 1"
proof -
  let ?up = "stub_upstream 200 (Some example_answer)"
  have e: "Cache (h_options default_handler)" by (simp add: default_handler_def NewHandler_def)
  have m: "Lookup True 1000 (cache empty_engine) example_fp = None"
    by (simp add: Lookup_def empty_engine_def)
  have f1: "fingerprint_of (subnet_resolver ?up (EDNSSubnet (p_options (h_provider default_handler))))
             (example_query 4660 ''example.com.'' TypeA) = Inr example_fp"
    by (simp only: example_subnet example_fingerprints)
  have f2: "fingerprint_of (subnet_resolver ?up (EDNSSubnet (p_options (h_provider default_handler))))
             (example_query 4661 ''EXAMPLE.com.'' TypeA) = Inr example_fp"
    by (simp only: example_subnet example_fingerprints)
  have ttl: "0 < effective_ttl example_answer" by (simp add: example_ttl)
  have w: "(1000::nat) \<le> 1299" "1299 < 1000 + effective_ttl example_answer"
    by (simp_all add: example_ttl)
  from cached_answer_served_once [OF e f1 f2 m example_first example_ttl(2) ttl w]
  have "Handle ?up default_handler 1299 (example_query 4661 ''EXAMPLE.com.'' TypeA) example_cached
          = (example_answer, example_cached) \<and> calls example_cached = calls empty_engine + 1" .
  with e m example_first example_ttl(1) show ?thesis by blast
qed

lemma example_served:
  "serve_queries (stub_upstream 200 (Some example_answer)) default_handler empty_engine
     [(1000, example_query 4660 ''example.com.'' TypeA)] = example_cached"
  by (simp add: serve_queries_def example_first)

lemma example_failed_fetch:
  "Translate (stub_upstream 503 None) (h_provider default_handler)
      (example_query 4660 ''example.com.'' TypeA) empty_engine
   = (Inl (UpstreamHTTPError 503), \<lparr>cache = Map.empty, picks = 1, calls = 1\<rparr>)"
  by (simp add: Translate_def example_query_def default_handler_def NewHandler_def
      provider_options_def default_flags_def TypeA_def TypeAAAA_def endpoint_resolver_def
      stub_upstream_def empty_engine_def Let_def)

theorem cache_expiry_and_no_store_witness:
  "cache (serve_queries (stub_upstream 200 (Some example_answer)) default_handler empty_engine
     [(1000, example_query 4660 ''example.com.'' TypeA)]) example_fp = Some example_entry \<and>
   ce_inserted example_entry + ce_ttl example_entry < 1301 \<and>
   Lookup True 1301
     (cache (serve_queries (stub_upstream 200 (Some example_answer)) default_handler empty_engine
        [(1000, example_query 4660 ''example.com.'' TypeA)])) example_fp = None \<and>
   Lookup True 1000 (cache empty_engine) example_fp = None \<and>
   not_cacheable (Inl (UpstreamHTTPError 503)) \<and>
   GetOrFetch True 1000 example_fp
     (Translate (stub_upstream 503 None) (h_provider default_handler)
        (example_query 4660 ''example.com.'' TypeA)) empty_engine
     = (Inl (UpstreamHTTPError 503), \<lparr>cache = Map.empty, picks = 1, calls = 1\<rparr>)"
proof -
  let ?c = "cache (serve_queries (stub_upstream 200 (Some example_answer)) default_handler
     empty_engine [(1000, example_query 4660 ''example.com.'' TypeA)])"
  have e: "?c example_fp = Some example_entry"
    by (simp add: example_served example_cached_def)
  have x: "ce_inserted example_entry + ce_ttl example_entry < 1301"
    by (simp add: example_entry_def)
  have m: "Lookup True 1000 (cache empty_engine) example_fp = None"
    by (simp add: Lookup_def empty_engine_def)
  have n: "not_cacheable (Inl (UpstreamHTTPError 503))" by (simp add: not_cacheable_def)
  note inst = cache_expiry_and_no_store
    [of "stub_upstream 200 (Some example_answer)" default_handler
        "[(1000, example_query 4660 ''example.com.'' TypeA)]"]
  from inst e x have l: "Lookup True 1301 ?c example_fp = None" by blast
  from inst m example_failed_fetch n
  have "GetOrFetch True 1000 example_fp
     (Translate (stub_upstream 503 None) (h_provider default_handler)
        (example_query 4660 ''example.com.'' TypeA)) empty_engine
     = (Inl (UpstreamHTTPError 503), \<lparr>cache = Map.empty, picks = 1, calls = 1\<rparr>)"
    by blast
  with e x l m n show ?thesis by blast
qed


end
